theory Spec2Isabelle
  imports Main "HOL-Library.Word" "HOL-Library.Sublist"
begin

unbundle bit_operations_syntax

section \<open>Errors and outcomes\<close>

text \<open>
  The package wraps the yt-dlp binary: it starts the binary, reads its output, decodes a
  small JSON document and installs the binary from GitHub.  A Go \<^verbatim>\<open>error\<close> is modelled
  by the datatype \<open>error\<close>, and \<^verbatim>\<open>nil\<close> by \<open>None\<close> of \<open>error option\<close>.
\<close>

datatype json_error =
    SyntaxError char string            \<comment> \<open>invalid character, with the scanner's context\<close>
  | ErrUnexpectedEOF                   \<comment> \<open>\<^verbatim>\<open>io.ErrUnexpectedEOF\<close>\<close>
  | EOF                                \<comment> \<open>\<^verbatim>\<open>io.EOF\<close>\<close>
  | UnmarshalTypeError string string   \<comment> \<open>the JSON value's description, the struct field\<close>
  | InvalidStringTag                   \<comment> \<open>the error saved for an empty literal token\<close>
  | PhasePanic                         \<comment> \<open>the decoder's "out of sync" panic\<close>

datatype error =
    Err string                         \<comment> \<open>an error whose message is this text\<close>
  | JsonErr json_error                 \<comment> \<open>an error returned by \<^verbatim>\<open>encoding/json\<close>\<close>
  | Wrapped string error               \<comment> \<open>\<^verbatim>\<open>errors.New(prefix + err.Error())\<close>\<close>

text \<open>
  What a call does: it returns a value, it panics (a Go runtime error that nothing
  recovers), or it blocks forever.
\<close>

datatype 'a outcome = Returns 'a | Panics string | Blocks

section \<open>The JSON scanner of \<^verbatim>\<open>encoding/json\<close>\<close>

text \<open>
  \<^verbatim>\<open>decodeVideoInfo\<close> and \<^verbatim>\<open>GetGithubReleases\<close> call \<^verbatim>\<open>json.NewDecoder(r).Decode(v)\<close>.
  The decoder finds the end of the first JSON value with a byte-by-byte state machine,
  the scanner; it is transcribed here state function by state function.  The scanner's
  \<^verbatim>\<open>step\<close> field holds the next state function (here a constructor of \<open>step_fn\<close>),
  \<^verbatim>\<open>parseState\<close> is the stack of open objects and arrays (here with the innermost at
  the head of the list), \<^verbatim>\<open>err\<close> the syntax error met.  The fields \<^verbatim>\<open>endTop\<close> and
  \<^verbatim>\<open>bytes\<close>, which only serve \<^verbatim>\<open>scanner.eof\<close> and the offset in error messages, are
  left out.
\<close>

datatype opcode =
    scanContinue | scanBeginLiteral | scanBeginObject | scanObjectKey | scanObjectValue
  | scanEndObject | scanBeginArray | scanArrayValue | scanEndArray | scanSkipSpace
  | scanEnd | scanError

datatype parse_state = parseObjectKey | parseObjectValue | parseArrayValue

datatype step_fn =
    StBeginValueOrEmpty | StBeginValue | StBeginStringOrEmpty | StBeginString
  | StEndValue | StEndTop
  | StInString | StInStringEsc | StInStringEscU | StInStringEscU1 | StInStringEscU12
  | StInStringEscU123
  | StNeg | St1 | St0 | StDot | StDot0 | StE | StESign | StE0
  | StT | StTr | StTru | StF | StFa | StFal | StFals | StN | StNu | StNul
  | StError

record scanner =
  step :: step_fn
  parseState :: "parse_state list"
  err :: "json_error option"

definition maxNestingDepth :: nat where
  "maxNestingDepth = 10000"

definition reset :: scanner where
  "reset = \<lparr>step = StBeginValue, parseState = [], err = None\<rparr>"

definition isSpace :: "char \<Rightarrow> bool" where
  "isSpace c = (c = CHR '' '' \<or> c = CHR 0x09 \<or> c = CHR 0x0D \<or> c = CHR 0x0A)"

definition isDigit :: "char \<Rightarrow> bool" where
  "isDigit c = (c \<in> set ''0123456789'')"

definition isDigit19 :: "char \<Rightarrow> bool" where
  "isDigit19 c = (c \<in> set ''123456789'')"

definition isHex :: "char \<Rightarrow> bool" where
  "isHex c = (c \<in> set ''0123456789abcdefABCDEF'')"

definition scan_error :: "scanner \<Rightarrow> char \<Rightarrow> string \<Rightarrow> opcode \<times> scanner" where
  "scan_error s c context =
     (scanError, s\<lparr>step := StError, err := Some (SyntaxError c context)\<rparr>)"

definition pushParseState ::
  "scanner \<Rightarrow> char \<Rightarrow> parse_state \<Rightarrow> opcode \<Rightarrow> opcode \<times> scanner" where
  "pushParseState s c newParseState successState =
     (let s' = s\<lparr>parseState := newParseState # parseState s\<rparr>
      in if length (parseState s') \<le> maxNestingDepth then (successState, s')
         else scan_error s' c ''exceeded max depth'')"

definition popParseState :: "scanner \<Rightarrow> scanner" where
  "popParseState s =
     (let rest = tl (parseState s)
      in s\<lparr>parseState := rest, step := (if rest = [] then StEndTop else StEndValue)\<rparr>)"

definition stateEndTop :: "scanner \<Rightarrow> char \<Rightarrow> opcode \<times> scanner" where
  "stateEndTop s c =
     (if \<not> isSpace c then (scanEnd, snd (scan_error s c ''after top-level value''))
      else (scanEnd, s))"

definition stateEndValue :: "scanner \<Rightarrow> char \<Rightarrow> opcode \<times> scanner" where
  "stateEndValue s c =
     (case parseState s of
        [] \<Rightarrow> stateEndTop (s\<lparr>step := StEndTop\<rparr>) c
      | ps # rest \<Rightarrow>
          if isSpace c then (scanSkipSpace, s\<lparr>step := StEndValue\<rparr>)
          else (case ps of
            parseObjectKey \<Rightarrow>
              if c = CHR '':'' then
                (scanObjectKey, s\<lparr>parseState := parseObjectValue # rest, step := StBeginValue\<rparr>)
              else scan_error s c ''after object key''
          | parseObjectValue \<Rightarrow>
              if c = CHR '','' then
                (scanObjectValue, s\<lparr>parseState := parseObjectKey # rest, step := StBeginString\<rparr>)
              else if c = CHR ''}'' then (scanEndObject, popParseState s)
              else scan_error s c ''after object key:value pair''
          | parseArrayValue \<Rightarrow>
              if c = CHR '','' then (scanArrayValue, s\<lparr>step := StBeginValue\<rparr>)
              else if c = CHR '']'' then (scanEndArray, popParseState s)
              else scan_error s c ''after array element''))"

definition stateBeginValue :: "scanner \<Rightarrow> char \<Rightarrow> opcode \<times> scanner" where
  \<open>stateBeginValue s c =
     (if isSpace c then (scanSkipSpace, s)
      else if c = CHR ''{'' then
        pushParseState (s\<lparr>step := StBeginStringOrEmpty\<rparr>) c parseObjectKey scanBeginObject
      else if c = CHR ''['' then
        pushParseState (s\<lparr>step := StBeginValueOrEmpty\<rparr>) c parseArrayValue scanBeginArray
      else if c = CHR ''"'' then (scanBeginLiteral, s\<lparr>step := StInString\<rparr>)
      else if c = CHR ''-'' then (scanBeginLiteral, s\<lparr>step := StNeg\<rparr>)
      else if c = CHR ''0'' then (scanBeginLiteral, s\<lparr>step := St0\<rparr>)
      else if c = CHR ''t'' then (scanBeginLiteral, s\<lparr>step := StT\<rparr>)
      else if c = CHR ''f'' then (scanBeginLiteral, s\<lparr>step := StF\<rparr>)
      else if c = CHR ''n'' then (scanBeginLiteral, s\<lparr>step := StN\<rparr>)
      else if isDigit19 c then (scanBeginLiteral, s\<lparr>step := St1\<rparr>)
      else scan_error s c ''looking for beginning of value'')\<close>

definition stateBeginValueOrEmpty :: "scanner \<Rightarrow> char \<Rightarrow> opcode \<times> scanner" where
  "stateBeginValueOrEmpty s c =
     (if isSpace c then (scanSkipSpace, s)
      else if c = CHR '']'' then stateEndValue s c
      else stateBeginValue s c)"

definition stateBeginString :: "scanner \<Rightarrow> char \<Rightarrow> opcode \<times> scanner" where
  \<open>stateBeginString s c =
     (if isSpace c then (scanSkipSpace, s)
      else if c = CHR ''"'' then (scanBeginLiteral, s\<lparr>step := StInString\<rparr>)
      else scan_error s c ''looking for beginning of object key string'')\<close>

text \<open>
  \<^verbatim>\<open>stateBeginStringOrEmpty\<close> overwrites the top of the stack; the state is only entered
  right after an object has been pushed, so the stack is not empty there.
\<close>

definition stateBeginStringOrEmpty :: "scanner \<Rightarrow> char \<Rightarrow> opcode \<times> scanner" where
  "stateBeginStringOrEmpty s c =
     (if isSpace c then (scanSkipSpace, s)
      else if c = CHR ''}'' then
        stateEndValue (s\<lparr>parseState := (parseState s)[0 := parseObjectValue]\<rparr>) c
      else stateBeginString s c)"

definition stateInString :: "scanner \<Rightarrow> char \<Rightarrow> opcode \<times> scanner" where
  \<open>stateInString s c =
     (if c = CHR ''"'' then (scanContinue, s\<lparr>step := StEndValue\<rparr>)
      else if c = CHR 0x5C then (scanContinue, s\<lparr>step := StInStringEsc\<rparr>)
      else if (of_char c :: nat) < 0x20 then scan_error s c ''in string literal''
      else (scanContinue, s))\<close>

definition stateInStringEsc :: "scanner \<Rightarrow> char \<Rightarrow> opcode \<times> scanner" where
  \<open>stateInStringEsc s c =
     (if c \<in> set ''bfnrt'' \<or> c = CHR 0x5C \<or> c = CHR ''/'' \<or> c = CHR ''"'' then
        (scanContinue, s\<lparr>step := StInString\<rparr>)
      else if c = CHR ''u'' then (scanContinue, s\<lparr>step := StInStringEscU\<rparr>)
      else scan_error s c ''in string escape code'')\<close>

definition stateInStringEscU_n :: "step_fn \<Rightarrow> scanner \<Rightarrow> char \<Rightarrow> opcode \<times> scanner" where
  "stateInStringEscU_n next s c =
     (if isHex c then (scanContinue, s\<lparr>step := next\<rparr>)
      else scan_error s c (''in '' @ [CHR 0x5C] @ ''u hexadecimal character escape''))"

definition stateNeg :: "scanner \<Rightarrow> char \<Rightarrow> opcode \<times> scanner" where
  "stateNeg s c =
     (if c = CHR ''0'' then (scanContinue, s\<lparr>step := St0\<rparr>)
      else if isDigit19 c then (scanContinue, s\<lparr>step := St1\<rparr>)
      else scan_error s c ''in numeric literal'')"

definition state0 :: "scanner \<Rightarrow> char \<Rightarrow> opcode \<times> scanner" where
  "state0 s c =
     (if c = CHR ''.'' then (scanContinue, s\<lparr>step := StDot\<rparr>)
      else if c = CHR ''e'' \<or> c = CHR ''E'' then (scanContinue, s\<lparr>step := StE\<rparr>)
      else stateEndValue s c)"

definition state1 :: "scanner \<Rightarrow> char \<Rightarrow> opcode \<times> scanner" where
  "state1 s c =
     (if isDigit c then (scanContinue, s\<lparr>step := St1\<rparr>)
      else state0 s c)"

definition stateDot :: "scanner \<Rightarrow> char \<Rightarrow> opcode \<times> scanner" where
  "stateDot s c =
     (if isDigit c then (scanContinue, s\<lparr>step := StDot0\<rparr>)
      else scan_error s c ''after decimal point in numeric literal'')"

definition stateDot0 :: "scanner \<Rightarrow> char \<Rightarrow> opcode \<times> scanner" where
  "stateDot0 s c =
     (if isDigit c then (scanContinue, s)
      else if c = CHR ''e'' \<or> c = CHR ''E'' then (scanContinue, s\<lparr>step := StE\<rparr>)
      else stateEndValue s c)"

definition stateESign :: "scanner \<Rightarrow> char \<Rightarrow> opcode \<times> scanner" where
  "stateESign s c =
     (if isDigit c then (scanContinue, s\<lparr>step := StE0\<rparr>)
      else scan_error s c ''in exponent of numeric literal'')"

definition stateE :: "scanner \<Rightarrow> char \<Rightarrow> opcode \<times> scanner" where
  "stateE s c =
     (if c = CHR ''+'' \<or> c = CHR ''-'' then (scanContinue, s\<lparr>step := StESign\<rparr>)
      else stateESign s c)"

definition stateE0 :: "scanner \<Rightarrow> char \<Rightarrow> opcode \<times> scanner" where
  "stateE0 s c =
     (if isDigit c then (scanContinue, s)
      else stateEndValue s c)"

text \<open>
  The states inside \<^verbatim>\<open>true\<close>, \<^verbatim>\<open>false\<close> and \<^verbatim>\<open>null\<close> expect one letter each
  (\<^verbatim>\<open>stateT\<close>, \<^verbatim>\<open>stateTr\<close>, ...).
\<close>

definition stateLetter ::
  "char \<Rightarrow> step_fn \<Rightarrow> string \<Rightarrow> scanner \<Rightarrow> char \<Rightarrow> opcode \<times> scanner" where
  "stateLetter expected next context s c =
     (if c = expected then (scanContinue, s\<lparr>step := next\<rparr>)
      else scan_error s c context)"

definition scan_step :: "scanner \<Rightarrow> char \<Rightarrow> opcode \<times> scanner" where
  "scan_step s c =
     (case step s of
        StBeginValueOrEmpty \<Rightarrow> stateBeginValueOrEmpty s c
      | StBeginValue \<Rightarrow> stateBeginValue s c
      | StBeginStringOrEmpty \<Rightarrow> stateBeginStringOrEmpty s c
      | StBeginString \<Rightarrow> stateBeginString s c
      | StEndValue \<Rightarrow> stateEndValue s c
      | StEndTop \<Rightarrow> stateEndTop s c
      | StInString \<Rightarrow> stateInString s c
      | StInStringEsc \<Rightarrow> stateInStringEsc s c
      | StInStringEscU \<Rightarrow> stateInStringEscU_n StInStringEscU1 s c
      | StInStringEscU1 \<Rightarrow> stateInStringEscU_n StInStringEscU12 s c
      | StInStringEscU12 \<Rightarrow> stateInStringEscU_n StInStringEscU123 s c
      | StInStringEscU123 \<Rightarrow> stateInStringEscU_n StInString s c
      | StNeg \<Rightarrow> stateNeg s c
      | St1 \<Rightarrow> state1 s c
      | St0 \<Rightarrow> state0 s c
      | StDot \<Rightarrow> stateDot s c
      | StDot0 \<Rightarrow> stateDot0 s c
      | StE \<Rightarrow> stateE s c
      | StESign \<Rightarrow> stateESign s c
      | StE0 \<Rightarrow> stateE0 s c
      | StT \<Rightarrow> stateLetter CHR ''r'' StTr ''in literal true (expecting 'r')'' s c
      | StTr \<Rightarrow> stateLetter CHR ''u'' StTru ''in literal true (expecting 'u')'' s c
      | StTru \<Rightarrow> stateLetter CHR ''e'' StEndValue ''in literal true (expecting 'e')'' s c
      | StF \<Rightarrow> stateLetter CHR ''a'' StFa ''in literal false (expecting 'a')'' s c
      | StFa \<Rightarrow> stateLetter CHR ''l'' StFal ''in literal false (expecting 'l')'' s c
      | StFal \<Rightarrow> stateLetter CHR ''s'' StFals ''in literal false (expecting 's')'' s c
      | StFals \<Rightarrow> stateLetter CHR ''e'' StEndValue ''in literal false (expecting 'e')'' s c
      | StN \<Rightarrow> stateLetter CHR ''u'' StNu ''in literal null (expecting 'u')'' s c
      | StNu \<Rightarrow> stateLetter CHR ''l'' StNul ''in literal null (expecting 'l')'' s c
      | StNul \<Rightarrow> stateLetter CHR ''l'' StEndValue ''in literal null (expecting 'l')'' s c
      | StError \<Rightarrow> (scanError, s))"

section \<open>Decoding the first JSON value\<close>

text \<open>
  \<^verbatim>\<open>Decoder.Decode\<close> makes two passes over the same bytes with the same scanner:
  \<^verbatim>\<open>readValue\<close> finds where the first value ends, then \<^verbatim>\<open>unmarshal\<close> walks these bytes
  again and stores every literal token according to its first byte.  The model makes one
  pass: \<open>readValue\<close> returns the first value as the tree of its literal tokens, every
  token kept as the bytes the scanner accepted (a string token with its quotes and
  escapes).  An object keeps its members in the order of the text, duplicates included.
\<close>

datatype json =
    JObject "(string \<times> json) list"
  | JArray "json list"
  | JLit string

datatype frame =
    ObjFrame "(string \<times> json) list" "string option"   \<comment> \<open>members read, key awaiting its value\<close>
  | ArrFrame "json list"

record builder =
  cur_literal :: "string option"    \<comment> \<open>the literal being read\<close>
  containers :: "frame list"        \<comment> \<open>the open objects and arrays, innermost first\<close>
  value_read :: "json option"       \<comment> \<open>the complete top-level value\<close>

definition builder0 :: builder where
  "builder0 = \<lparr>cur_literal = None, containers = [], value_read = None\<rparr>"

definition deliver :: "json \<Rightarrow> builder \<Rightarrow> builder" where
  "deliver v b =
     (case containers b of
        [] \<Rightarrow> b\<lparr>value_read := Some v\<rparr>
      | ObjFrame ms None # fs \<Rightarrow>
          (case v of JLit k \<Rightarrow> b\<lparr>containers := ObjFrame ms (Some k) # fs\<rparr> | _ \<Rightarrow> b)
      | ObjFrame ms (Some k) # fs \<Rightarrow> b\<lparr>containers := ObjFrame (ms @ [(k, v)]) None # fs\<rparr>
      | ArrFrame es # fs \<Rightarrow> b\<lparr>containers := ArrFrame (es @ [v]) # fs\<rparr>)"

text \<open>
  A literal begins at \<open>scanBeginLiteral\<close> and goes on while the scanner answers
  \<open>scanContinue\<close>; the first other opcode ends it.
\<close>

definition flush :: "builder \<Rightarrow> builder" where
  "flush b =
     (case cur_literal b of
        None \<Rightarrow> b
      | Some l \<Rightarrow> deliver (JLit l) (b\<lparr>cur_literal := None\<rparr>))"

definition close_container :: "builder \<Rightarrow> builder" where
  "close_container b =
     (case containers b of
        [] \<Rightarrow> b
      | ObjFrame ms _ # fs \<Rightarrow> deliver (JObject ms) (b\<lparr>containers := fs\<rparr>)
      | ArrFrame es # fs \<Rightarrow> deliver (JArray es) (b\<lparr>containers := fs\<rparr>))"

definition build :: "builder \<Rightarrow> char \<Rightarrow> opcode \<Rightarrow> builder" where
  "build b c op =
     (if op = scanContinue then
        (case cur_literal b of None \<Rightarrow> b | Some l \<Rightarrow> b\<lparr>cur_literal := Some (l @ [c])\<rparr>)
      else
        (let b' = flush b
         in if op = scanBeginLiteral then b'\<lparr>cur_literal := Some [c]\<rparr>
            else if op = scanBeginObject then b'\<lparr>containers := ObjFrame [] None # containers b'\<rparr>
            else if op = scanBeginArray then b'\<lparr>containers := ArrFrame [] # containers b'\<rparr>
            else if op = scanEndObject \<or> op = scanEndArray then close_container b'
            else b'))"

definition finish :: "builder \<Rightarrow> json_error + json" where
  "finish b = (case value_read b of Some v \<Rightarrow> Inr v | None \<Rightarrow> Inl PhasePanic)"

definition nonSpace :: "string \<Rightarrow> bool" where
  "nonSpace buf = (\<not> list_all isSpace buf)"

text \<open>
  The loop of \<^verbatim>\<open>Decoder.readValue\<close> over the input \<open>buf\<close>.  The scanner reports the end of
  a number or of \<^verbatim>\<open>true\<close>, \<^verbatim>\<open>false\<close>, \<^verbatim>\<open>null\<close> and of a string one byte late
  (\<open>scanEnd\<close>); at the closing bracket of a top-level object or array the loop does not
  wait for that byte and asks \<^verbatim>\<open>stateEndValue\<close> with an invented space.  At the end of
  the input the value is complete if a space would end it; else the error is
  \<^verbatim>\<open>io.ErrUnexpectedEOF\<close>, or \<^verbatim>\<open>io.EOF\<close> when the input holds nothing but white space.
  Nothing after the end of the first value is read.
\<close>

fun readValue :: "string \<Rightarrow> scanner \<Rightarrow> builder \<Rightarrow> string \<Rightarrow> json_error + json" where
  "readValue buf s b [] =
     (if fst (scan_step s CHR '' '') = scanEnd then finish (flush b)
      else if nonSpace buf then Inl ErrUnexpectedEOF
      else Inl EOF)"
| "readValue buf s b (c # cs) =
     (case scan_step s c of (op, s') \<Rightarrow>
        if op = scanEnd then finish (flush b)
        else if op = scanError then
          (case err s' of Some e \<Rightarrow> Inl e | None \<Rightarrow> Inl PhasePanic)
        else if (op = scanEndObject \<or> op = scanEndArray)
                \<and> fst (stateEndValue s' CHR '' '') = scanEnd then finish (build b c op)
        else readValue buf s' (build b c op) cs)"

definition Decode :: "(json \<Rightarrow> json_error + 'a) \<Rightarrow> string \<Rightarrow> json_error + 'a" where
  "Decode unmarshal buf =
     (case readValue buf reset builder0 buf of
        Inl e \<Rightarrow> Inl e
      | Inr v \<Rightarrow> unmarshal v)"

section \<open>Storing a JSON value into the Go structs\<close>

text \<open>
  Two functions of \<^verbatim>\<open>encoding/json\<close> are parameters of the model: \<^verbatim>\<open>unquoteBytes\<close>,
  which turns a string token into the bytes it denotes (escapes, UTF-8 repair), and
  \<^verbatim>\<open>foldName\<close>, the case folding under which a key matches a field name when no field
  has exactly that name; both depend on Unicode tables that are not part of the package.
\<close>

record jsonlib =
  unquote :: "string \<Rightarrow> string"
  foldName :: "string \<Rightarrow> string"

record YTDLPVideoInfo =
  Id' :: string
  Title :: string
  Thumbnail :: string
  Duration :: "64 word"            \<comment> \<open>Go's \<^verbatim>\<open>uint\<close> on a 64-bit platform\<close>

record GHDownloadData =
  TagName :: string

definition digit_val :: "char \<Rightarrow> int" where
  "digit_val c = of_char c - 48"

text \<open>
  \<^verbatim>\<open>strconv.ParseUint(s, 10, 64)\<close>: decimal digits only (no sign, no point, no exponent),
  and the value must fit 64 bits.
\<close>

definition ParseUint :: "string \<Rightarrow> 64 word option" where
  "ParseUint s =
     (if s = [] \<or> \<not> list_all isDigit s then None
      else (let n = foldl (\<lambda>acc c. 10 * acc + digit_val c) 0 s
            in if n < 2 ^ 64 then Some (word_of_int n) else None))"

text \<open>
  \<^verbatim>\<open>decodeState.saveError\<close> keeps the first error; decoding goes on, and the saved error
  is what \<^verbatim>\<open>unmarshal\<close> returns at the end.
\<close>

definition saveError :: "json_error \<Rightarrow> json_error option \<Rightarrow> json_error option" where
  "saveError e saved = (case saved of None \<Rightarrow> Some e | Some e0 \<Rightarrow> Some e0)"

text \<open>
  \<^verbatim>\<open>literalStore\<close> looks at the first byte of the token: \<^verbatim>\<open>n\<close> is \<^verbatim>\<open>null\<close> (which
  leaves a string, an integer or a struct as it is), \<^verbatim>\<open>t\<close> and \<^verbatim>\<open>f\<close> a boolean, a quote
  a string, anything else a number.  The result is the new value of the target or the
  error to save.
\<close>

definition literalStore_string ::
  "jsonlib \<Rightarrow> string \<Rightarrow> string \<Rightarrow> string \<Rightarrow> json_error + string" where
  \<open>literalStore_string lib field item cur =
     (case item of
        [] \<Rightarrow> Inl InvalidStringTag
      | c # _ \<Rightarrow>
          if c = CHR ''n'' then Inr cur
          else if c = CHR ''t'' \<or> c = CHR ''f'' then Inl (UnmarshalTypeError ''bool'' field)
          else if c = CHR ''"'' then Inr (unquote lib item)
          else Inl (UnmarshalTypeError ''number'' field))\<close>

definition literalStore_uint :: "string \<Rightarrow> string \<Rightarrow> 64 word \<Rightarrow> json_error + 64 word" where
  \<open>literalStore_uint field item cur =
     (case item of
        [] \<Rightarrow> Inl InvalidStringTag
      | c # _ \<Rightarrow>
          if c = CHR ''n'' then Inr cur
          else if c = CHR ''t'' \<or> c = CHR ''f'' then Inl (UnmarshalTypeError ''bool'' field)
          else if c = CHR ''"'' then Inl (UnmarshalTypeError ''string'' field)
          else (case ParseUint item of
                  Some n \<Rightarrow> Inr n
                | None \<Rightarrow> Inl (UnmarshalTypeError (''number '' @ item) field)))\<close>

definition literalStore_struct :: "string \<Rightarrow> json_error option" where
  \<open>literalStore_struct item =
     (case item of
        [] \<Rightarrow> Some InvalidStringTag
      | c # _ \<Rightarrow>
          if c = CHR ''n'' then None
          else if c = CHR ''t'' \<or> c = CHR ''f'' then Some (UnmarshalTypeError ''bool'' [])
          else if c = CHR ''"'' then Some (UnmarshalTypeError ''string'' [])
          else Some (UnmarshalTypeError ''number'' []))\<close>

text \<open>
  \<^verbatim>\<open>decodeState.value\<close> for a target of kind string and of kind uint: an object or an
  array is a type error (and is skipped).
\<close>

definition value_string :: "jsonlib \<Rightarrow> string \<Rightarrow> json \<Rightarrow> string \<Rightarrow> json_error + string" where
  "value_string lib field v cur =
     (case v of
        JObject _ \<Rightarrow> Inl (UnmarshalTypeError ''object'' field)
      | JArray _ \<Rightarrow> Inl (UnmarshalTypeError ''array'' field)
      | JLit item \<Rightarrow> literalStore_string lib field item cur)"

definition value_uint :: "string \<Rightarrow> json \<Rightarrow> 64 word \<Rightarrow> json_error + 64 word" where
  "value_uint field v cur =
     (case v of
        JObject _ \<Rightarrow> Inl (UnmarshalTypeError ''object'' field)
      | JArray _ \<Rightarrow> Inl (UnmarshalTypeError ''array'' field)
      | JLit item \<Rightarrow> literalStore_uint field item cur)"

text \<open>
  The field of a key: the field with exactly that name, else the first field whose
  folded name is the folded key; a key that matches no field is skipped with its value.
\<close>

definition find_field :: "jsonlib \<Rightarrow> string list \<Rightarrow> string \<Rightarrow> string option" where
  "find_field lib names key =
     (if key \<in> set names then Some key
      else List.find (\<lambda>n. foldName lib n = foldName lib key) names)"

text \<open>
  \<^verbatim>\<open>decodeState.object\<close> on a struct: the members are stored one after the other, in the
  order of the text.  The state is the struct filled so far and the saved error.
\<close>

definition YTDLPVideoInfo_fields :: "string list" where
  "YTDLPVideoInfo_fields = [''id'', ''title'', ''thumbnail'', ''duration'']"

definition YTDLPVideoInfo_zero :: YTDLPVideoInfo where
  "YTDLPVideoInfo_zero = \<lparr>Id' = [], Title = [], Thumbnail = [], Duration = 0\<rparr>"

definition member_YTDLPVideoInfo ::
  "jsonlib \<Rightarrow> YTDLPVideoInfo \<times> json_error option \<Rightarrow> string \<times> json
     \<Rightarrow> YTDLPVideoInfo \<times> json_error option" where
  "member_YTDLPVideoInfo lib st m =
     (case (st, m) of ((vi, saved), (k, v)) \<Rightarrow>
        (case find_field lib YTDLPVideoInfo_fields (unquote lib k) of
           None \<Rightarrow> (vi, saved)
         | Some f \<Rightarrow>
             if f = ''id'' then
               (case value_string lib f v (Id' vi) of
                  Inl e \<Rightarrow> (vi, saveError e saved) | Inr x \<Rightarrow> (vi\<lparr>Id' := x\<rparr>, saved))
             else if f = ''title'' then
               (case value_string lib f v (Title vi) of
                  Inl e \<Rightarrow> (vi, saveError e saved) | Inr x \<Rightarrow> (vi\<lparr>Title := x\<rparr>, saved))
             else if f = ''thumbnail'' then
               (case value_string lib f v (Thumbnail vi) of
                  Inl e \<Rightarrow> (vi, saveError e saved) | Inr x \<Rightarrow> (vi\<lparr>Thumbnail := x\<rparr>, saved))
             else
               (case value_uint f v (Duration vi) of
                  Inl e \<Rightarrow> (vi, saveError e saved) | Inr n \<Rightarrow> (vi\<lparr>Duration := n\<rparr>, saved))))"

definition GHDownloadData_zero :: GHDownloadData where
  "GHDownloadData_zero = \<lparr>TagName = []\<rparr>"

definition member_GHDownloadData ::
  "jsonlib \<Rightarrow> GHDownloadData \<times> json_error option \<Rightarrow> string \<times> json
     \<Rightarrow> GHDownloadData \<times> json_error option" where
  "member_GHDownloadData lib st m =
     (case (st, m) of ((d, saved), (k, v)) \<Rightarrow>
        (case find_field lib [''tag_name''] (unquote lib k) of
           None \<Rightarrow> (d, saved)
         | Some f \<Rightarrow>
             (case value_string lib f v (TagName d) of
                Inl e \<Rightarrow> (d, saveError e saved) | Inr x \<Rightarrow> (d\<lparr>TagName := x\<rparr>, saved))))"

text \<open>
  \<^verbatim>\<open>decodeState.value\<close> for a target of kind struct: an object fills the fields, an array
  is a type error, a literal goes to \<^verbatim>\<open>literalStore\<close>.
\<close>

definition value_struct ::
  "('v \<times> json_error option \<Rightarrow> string \<times> json \<Rightarrow> 'v \<times> json_error option)
     \<Rightarrow> json \<Rightarrow> 'v \<times> json_error option \<Rightarrow> 'v \<times> json_error option" where
  "value_struct member v st =
     (case v of
        JObject ms \<Rightarrow> foldl member st ms
      | JArray _ \<Rightarrow> (fst st, saveError (UnmarshalTypeError ''array'' []) (snd st))
      | JLit item \<Rightarrow>
          (case literalStore_struct item of
             None \<Rightarrow> st
           | Some e \<Rightarrow> (fst st, saveError e (snd st))))"

definition unmarshal_YTDLPVideoInfo :: "jsonlib \<Rightarrow> json \<Rightarrow> json_error + YTDLPVideoInfo" where
  "unmarshal_YTDLPVideoInfo lib v =
     (case value_struct (member_YTDLPVideoInfo lib) v (YTDLPVideoInfo_zero, None) of
        (vi, None) \<Rightarrow> Inr vi
      | (vi, Some e) \<Rightarrow> Inl e)"

text \<open>
  \<^verbatim>\<open>decodeState.value\<close> for the slice \<^verbatim>\<open>[]GHDownloadData\<close>: an array appends one struct per
  element, \<^verbatim>\<open>null\<close> gives the nil slice, anything else is a type error.
\<close>

definition element_GHDownloadData ::
  "jsonlib \<Rightarrow> GHDownloadData list \<times> json_error option \<Rightarrow> json
     \<Rightarrow> GHDownloadData list \<times> json_error option" where
  "element_GHDownloadData lib st e =
     (case value_struct (member_GHDownloadData lib) e (GHDownloadData_zero, snd st) of
        (d, saved) \<Rightarrow> (fst st @ [d], saved))"

definition unmarshal_releases :: "jsonlib \<Rightarrow> json \<Rightarrow> json_error + GHDownloadData list" where
  \<open>unmarshal_releases lib v =
     (case v of
        JArray es \<Rightarrow>
          (case foldl (element_GHDownloadData lib) ([], None) es of
             (ds, None) \<Rightarrow> Inr ds
           | (ds, Some e) \<Rightarrow> Inl e)
      | JObject _ \<Rightarrow> Inl (UnmarshalTypeError ''object'' [])
      | JLit item \<Rightarrow>
          (case item of
             [] \<Rightarrow> Inl InvalidStringTag
           | c # _ \<Rightarrow>
               if c = CHR ''n'' then Inr []
               else if c = CHR ''t'' \<or> c = CHR ''f'' then Inl (UnmarshalTypeError ''bool'' [])
               else if c = CHR ''"'' then Inl (UnmarshalTypeError ''string'' [])
               else Inl (UnmarshalTypeError ''number'' [])))\<close>

section \<open>The metadata decoder\<close>

text \<open>
  \<^verbatim>\<open>decodeVideoInfo\<close> (main.go, lines 99 to 107): the error of \<^verbatim>\<open>Decode\<close> is returned as it
  is, with a nil pointer; else the struct.
\<close>

definition decodeVideoInfo :: "jsonlib \<Rightarrow> string \<Rightarrow> error + YTDLPVideoInfo" where
  "decodeVideoInfo lib stdout =
     (case Decode (unmarshal_YTDLPVideoInfo lib) stdout of
        Inl e \<Rightarrow> Inl (JsonErr e)
      | Inr vi \<Rightarrow> Inr vi)"

section \<open>The fields of an object\<close>

text \<open>
  What it means that decoding returns the fields of an object, stated on the members of
  the object and apart from the functions that store them.  A member names a field when
  its key is the name of the field, or, if the key is the name of no field, when the field
  is the first whose folded name is the folded key.  A member is well typed when, for the
  field it names, its value is \<^verbatim>\<open>null\<close>, or a string token for \<^verbatim>\<open>id\<close>, \<^verbatim>\<open>title\<close> and
  \<^verbatim>\<open>thumbnail\<close>, or decimal digits with a value below \<open>2 ^ 64\<close> for \<^verbatim>\<open>duration\<close>; a member
  that names no field is always well typed.  The value of a field is given by the last
  member that names it with a value other than \<^verbatim>\<open>null\<close>; with no such member it is the
  zero value.
\<close>

definition decimal_value :: "string \<Rightarrow> int" where
  "decimal_value tok = foldl (\<lambda>acc c. 10 * acc + digit_val c) 0 tok"

definition names_field :: "jsonlib \<Rightarrow> string \<Rightarrow> string \<Rightarrow> bool" where
  "names_field lib k f =
     (let key = unquote lib k
      in if key \<in> set YTDLPVideoInfo_fields then f = key
         else List.find (\<lambda>n. foldName lib n = foldName lib key) YTDLPVideoInfo_fields = Some f)"

definition is_null :: "json \<Rightarrow> bool" where
  "is_null v = (case v of JLit (c # _) \<Rightarrow> c = CHR ''n'' | _ \<Rightarrow> False)"

definition typed_for :: "string \<Rightarrow> json \<Rightarrow> bool" where
  \<open>typed_for f v =
     (case v of
        JLit (c # item) \<Rightarrow>
          c = CHR ''n''
          \<or> (if f = ''duration'' then list_all isDigit (c # item) \<and> decimal_value (c # item) < 2 ^ 64
              else c = CHR ''"'')
      | _ \<Rightarrow> False)\<close>

definition well_typed :: "jsonlib \<Rightarrow> string \<times> json \<Rightarrow> bool" where
  "well_typed lib m =
     list_all (\<lambda>f. if names_field lib (fst m) f then typed_for f (snd m) else True)
       YTDLPVideoInfo_fields"

definition token_of :: "jsonlib \<Rightarrow> string \<Rightarrow> (string \<times> json) list \<Rightarrow> string option" where
  "token_of lib f ms =
     (case List.find (\<lambda>m. names_field lib (fst m) f \<and> \<not> is_null (snd m)) (rev ms) of
        Some (k, JLit item) \<Rightarrow> Some item
      | _ \<Rightarrow> None)"

definition string_field :: "jsonlib \<Rightarrow> string \<Rightarrow> (string \<times> json) list \<Rightarrow> string" where
  "string_field lib f ms = (case token_of lib f ms of None \<Rightarrow> [] | Some t \<Rightarrow> unquote lib t)"

definition object_fields :: "jsonlib \<Rightarrow> (string \<times> json) list \<Rightarrow> YTDLPVideoInfo" where
  "object_fields lib ms =
     \<lparr>Id' = string_field lib ''id'' ms,
      Title = string_field lib ''title'' ms,
      Thumbnail = string_field lib ''thumbnail'' ms,
      Duration = (case token_of lib ''duration'' ms of
                    None \<Rightarrow> 0
                  | Some t \<Rightarrow> word_of_int (decimal_value t))\<rparr>"

section \<open>Running the binary\<close>

text \<open>
  The operating system is a parameter: \<open>run\<close> is \<^verbatim>\<open>Cmd.CombinedOutput\<close> (the output of
  the process and the text of its error, if any), \<open>spawn\<close> is \<^verbatim>\<open>Cmd.Start\<close> (the text of
  the error, or the running process).  A process is described by what it writes: the bytes
  of its standard output, and the lines that \<^verbatim>\<open>bufio.Scanner\<close> reads from its standard
  error, all of them, up to the exit of the process.  Every function also takes and
  returns the commands launched so far, each with the path of the binary and its
  arguments.
\<close>

record process =
  stdout :: string
  stderr :: "string list"

record sys =
  run :: "string \<Rightarrow> string list \<Rightarrow> string \<times> string option"
  spawn :: "string \<Rightarrow> string list \<Rightarrow> string + process"

type_synonym launches = "(string \<times> string list) list"

record YTDLPInstance =
  bPath :: string

text \<open>\<^verbatim>\<open>Execute\<close> (lines 43 to 54); \<^verbatim>\<open>slices.Insert(args, 0, url)\<close> puts the url first.\<close>

definition Execute ::
  "sys \<Rightarrow> YTDLPInstance \<Rightarrow> string \<Rightarrow> string list \<Rightarrow> launches \<Rightarrow> error option \<times> launches" where
  "Execute os inst url args ls =
     (if url = [] then (Some (Err ''empty url''), ls)
      else
        (let args' = url # args;
             (out, e) = run os (bPath inst) args'
         in ((case e of
                Some msg \<Rightarrow> Some (Err (''yt-dlp error: '' @ [CHR 0x0A] @ msg @ '' | '' @ out))
              | None \<Rightarrow> None),
             ls @ [(bPath inst, args')])))"

text \<open>\<^verbatim>\<open>DumpStdout\<close> (lines 76 to 83); \<^verbatim>\<open>append(args, url)\<close> puts the url last.\<close>

definition DumpStdout ::
  "sys \<Rightarrow> YTDLPInstance \<Rightarrow> string \<Rightarrow> string list \<Rightarrow> launches
     \<Rightarrow> (string \<times> error option) \<times> launches" where
  "DumpStdout os inst url args ls =
     (if url = [] then (([], Some (Err ''empty url'')), ls)
      else
        (let args' = args @ [url];
             (out, e) = run os (bPath inst) args'
         in ((out, map_option Err e), ls @ [(bPath inst, args')])))"

text \<open>\<^verbatim>\<open>GetVideoInfo\<close> (lines 85 to 97); \<open>GetVideoInfo_args\<close> is its variable \<^verbatim>\<open>args\<close>.\<close>

definition GetVideoInfo_args :: "string \<Rightarrow> string list" where
  "GetVideoInfo_args query =
     [''ytsearch:'' @ query, ''-s'', ''-O'', ''%(.{id,title,thumbnail,duration})#j'']"

definition GetVideoInfo ::
  "jsonlib \<Rightarrow> sys \<Rightarrow> YTDLPInstance \<Rightarrow> string \<Rightarrow> launches
     \<Rightarrow> (error + YTDLPVideoInfo) \<times> launches" where
  "GetVideoInfo lib os inst query ls =
     (let args = GetVideoInfo_args query;
          (out, e) = run os (bPath inst) args
      in ((case e of
             Some msg \<Rightarrow> Inl (Err (''yt-dlp error: '' @ [CHR 0x0A] @ msg @ '' | '' @ out))
           | None \<Rightarrow>
               (case decodeVideoInfo lib out of
                  Inl e' \<Rightarrow> Inl (Wrapped ''failed to decode video info: '' e')
                | Inr vi \<Rightarrow> Inr vi)),
          ls @ [(bPath inst, args)]))"

section \<open>The streaming launch\<close>

text \<open>
  The goroutine of \<^verbatim>\<open>ExecuteStream\<close> that scans the read end of a pipe (lines 130 to
  145), given the lines written to the pipe and whether the write end is then closed:
  \<^verbatim>\<open>Scan\<close> returns false at the end of the stream, which a pipe reaches only when its write
  end is closed.  The loop leaves in one of three ways: by \<^verbatim>\<open>break\<close> at a line with the
  download prefix or at the end of the stream, by \<^verbatim>\<open>return\<close> at a line with the error
  prefix, after the error has been sent, or never, when the lines are read and the pipe
  stays open.  In each case the lines not yet read are kept.
\<close>

definition downloadPrefix :: string where
  "downloadPrefix = ''[download]''"

definition errorPrefix :: string where
  "errorPrefix = ''ERROR: ''"

datatype loop_exit =
    Break "string list"
  | Return error "string list"
  | Waits

fun scan_loop :: "string list \<Rightarrow> bool \<Rightarrow> loop_exit" where
  "scan_loop [] closes = (if closes then Break [] else Waits)"
| "scan_loop (line # rest) closes =
     (if prefix downloadPrefix line then Break rest
      else if prefix errorPrefix line then Return (Err (drop (length errorPrefix) line)) rest
      else scan_loop rest closes)"

text \<open>
  What the goroutine does, in order: \<open>Send e\<close> is \<^verbatim>\<open>ytErrCh <- e\<close>, and \<open>Discard rest\<close> is
  \<^verbatim>\<open>io.Copy(io.Discard, stderrRd)\<close>, which reads all that is left of the stream.  After
  \<^verbatim>\<open>return\<close> the goroutine does nothing more.
\<close>

datatype event = Send "error option" | Discard "string list"

definition stderr_task :: "string list \<Rightarrow> bool \<Rightarrow> event list" where
  "stderr_task lines closes =
     (case scan_loop lines closes of
        Break rest \<Rightarrow> [Send None, Discard rest]
      | Return e rest \<Rightarrow> [Send (Some e)]
      | Waits \<Rightarrow> [])"

text \<open>
  The receive \<^verbatim>\<open><-ytErrCh\<close> of the caller takes the first value sent; with nothing sent
  it blocks forever.
\<close>

fun receive :: "event list \<Rightarrow> error option option" where
  "receive [] = None"
| "receive (Send e # es) = Some e"
| "receive (Discard rest # es) = receive es"

definition handshake :: "string list \<Rightarrow> bool \<Rightarrow> error option option" where
  "handshake lines closes = receive (stderr_task lines closes)"

text \<open>
  \<^verbatim>\<open>ExecuteStream\<close> (lines 109 to 147).  The reader returned is the read end of the pipe
  of the standard output, \<open>None\<close> for Go's nil.  The write end \<^verbatim>\<open>stderrW\<close> of the pipe
  that the goroutine scans is never closed: the function closes \<^verbatim>\<open>stdoutW\<close> alone (line
  124), and \<^verbatim>\<open>os/exec\<close>, which copies the standard error of the process into the writer
  it was given, does not close that writer when the process exits.  So the scanner never
  sees the end of the stream.
\<close>

definition stderrW_closed :: bool where
  "stderrW_closed = False"

datatype reader = PipeReader string

definition ExecuteStream ::
  "sys \<Rightarrow> YTDLPInstance \<Rightarrow> string \<Rightarrow> string list \<Rightarrow> launches
     \<Rightarrow> (reader option \<times> error option) outcome \<times> launches" where
  "ExecuteStream os inst url args ls =
     (let args1 = url # args;
          args2 = args1 @ [''-o'', ''-'', ''--newline''];
          ls' = ls @ [(bPath inst, args2)]
      in (case spawn os (bPath inst) args2 of
            Inl msg \<Rightarrow> (Returns (None, Some (Err msg)), ls')
          | Inr p \<Rightarrow>
              (case handshake (stderr p) stderrW_closed of
                 None \<Rightarrow> (Blocks, ls')
               | Some e \<Rightarrow> (Returns (Some (PipeReader (stdout p)), e), ls'))))"

section \<open>Installing the binary\<close>

text \<open>
  The file system maps a path to the mode (Go's \<^verbatim>\<open>os.FileMode\<close>, 32 bits) and the bytes
  of the file.  The environment gives the answer of the HTTP client to a GET (the text of
  the error, or the body), the system calls that fail and with what message, where
  \<^verbatim>\<open>io.Copy\<close> stops if it fails (after how many bytes, and the message), and the umask.
\<close>

record file_entry =
  mode :: "32 word"
  content :: string

type_synonym filesystem = "string \<rightharpoonup> file_entry"

datatype syscall = SysCreate | SysStat | SysChmod

record env =
  http_get :: "string \<Rightarrow> string + string"
  fault :: "syscall \<Rightarrow> string \<Rightarrow> string option"
  copy_stops :: "string \<Rightarrow> (nat \<times> string) option"
  umask :: "32 word"

definition exeName :: string where
  "exeName = ''yt-dlp''"

text \<open>\<^verbatim>\<open>fmt.Sprintf\<close> with the verb \<^verbatim>\<open>%d\<close>: the decimal digits, with a sign when negative.\<close>

fun show_nat :: "nat \<Rightarrow> string" where
  "show_nat n =
     (if n < 10 then [char_of (48 + n)]
      else show_nat (n div 10) @ [char_of (48 + n mod 10)])"

definition show_int :: "int \<Rightarrow> string" where
  "show_int i = (if i < 0 then CHR ''-'' # show_nat (nat (- i)) else show_nat (nat i))"

text \<open>\<^verbatim>\<open>GetGithubReleases\<close> (lines 149 to 162).\<close>

definition GetGithubReleases ::
  "jsonlib \<Rightarrow> env \<Rightarrow> int \<Rightarrow> int \<Rightarrow> error + GHDownloadData list" where
  "GetGithubReleases lib ev page entries =
     (let url = ''https://api.github.com/repos/yt-dlp/yt-dlp/releases?page='' @ show_int page
                  @ ''&per_page='' @ show_int entries
      in (case http_get ev url of
            Inl msg \<Rightarrow> Inl (Err msg)
          | Inr body \<Rightarrow>
              (case Decode (unmarshal_releases lib) body of
                 Inl dErr \<Rightarrow> Inl (JsonErr dErr)
               | Inr d \<Rightarrow> Inr d)))"

text \<open>
  \<^verbatim>\<open>downloadFile\<close> (lines 186 to 202).  \<^verbatim>\<open>os.Create\<close> truncates an existing file and keeps
  its mode; a new file gets the mode 0666 (octal) less the umask.
\<close>

definition Create :: "env \<Rightarrow> filesystem \<Rightarrow> string \<Rightarrow> error option \<times> filesystem" where
  "Create ev fs name =
     (case fault ev SysCreate name of
        Some msg \<Rightarrow> (Some (Err msg), fs)
      | None \<Rightarrow>
          (None, fs(name \<mapsto>
             (case fs name of
                None \<Rightarrow> \<lparr>mode = 0x1B6 AND NOT (umask ev), content = []\<rparr>
              | Some f \<Rightarrow> f\<lparr>content := []\<rparr>))))"

definition write_content :: "filesystem \<Rightarrow> string \<Rightarrow> string \<Rightarrow> filesystem" where
  "write_content fs name bytes =
     (case fs name of None \<Rightarrow> fs | Some f \<Rightarrow> fs(name \<mapsto> f\<lparr>content := bytes\<rparr>))"

definition downloadFile ::
  "env \<Rightarrow> filesystem \<Rightarrow> string \<Rightarrow> string \<Rightarrow> error option \<times> filesystem" where
  "downloadFile ev fs path url =
     (case Create ev fs path of
        (Some e, fs1) \<Rightarrow> (Some e, fs1)
      | (None, fs1) \<Rightarrow>
          (case http_get ev url of
             Inl msg \<Rightarrow> (Some (Err msg), fs1)
           | Inr body \<Rightarrow>
               (case copy_stops ev path of
                  Some (n, msg) \<Rightarrow> (Some (Err msg), write_content fs1 path (take n body))
                | None \<Rightarrow> (None, write_content fs1 path body))))"

text \<open>\<^verbatim>\<open>os.Stat\<close> and \<^verbatim>\<open>os.Chmod\<close>: both fail on a path that has no file.\<close>

definition Stat :: "env \<Rightarrow> filesystem \<Rightarrow> string \<Rightarrow> error + 32 word" where
  "Stat ev fs name =
     (case fault ev SysStat name of
        Some msg \<Rightarrow> Inl (Err msg)
      | None \<Rightarrow>
          (case fs name of
             None \<Rightarrow> Inl (Err (''stat '' @ name @ '': no such file or directory''))
           | Some f \<Rightarrow> Inr (mode f)))"

definition Chmod :: "env \<Rightarrow> filesystem \<Rightarrow> string \<Rightarrow> 32 word \<Rightarrow> error option \<times> filesystem" where
  "Chmod ev fs name m =
     (case fault ev SysChmod name of
        Some msg \<Rightarrow> (Some (Err msg), fs)
      | None \<Rightarrow>
          (case fs name of
             None \<Rightarrow> (Some (Err (''chmod '' @ name @ '': no such file or directory'')), fs)
           | Some f \<Rightarrow> (None, fs(name \<mapsto> f\<lparr>mode := m\<rparr>))))"

text \<open>\<^verbatim>\<open>setExecPermission\<close> (lines 204 to 211); the octal 0111 is 0x49.\<close>

definition setExecPermission :: "env \<Rightarrow> filesystem \<Rightarrow> string \<Rightarrow> error option \<times> filesystem" where
  "setExecPermission ev fs fpath =
     (case Stat ev fs fpath of
        Inl e \<Rightarrow> (Some e, fs)
      | Inr m \<Rightarrow> Chmod ev fs fpath (m OR 0x49))"

text \<open>\<^verbatim>\<open>DownloadFromGithub\<close> (lines 177 to 184).\<close>

definition DownloadFromGithub ::
  "env \<Rightarrow> filesystem \<Rightarrow> string \<Rightarrow> string \<Rightarrow> error option \<times> filesystem" where
  "DownloadFromGithub ev fs path version =
     (let url = ''https://github.com/yt-dlp/yt-dlp/releases/download/'' @ version @ ''/'' @ exeName
      in (case downloadFile ev fs path url of
            (Some e, fs1) \<Rightarrow> (Some e, fs1)
          | (None, fs1) \<Rightarrow> setExecPermission ev fs1 path))"

text \<open>
  \<^verbatim>\<open>DownloadLatestFromGithub\<close> (lines 164 to 175).  The index expression \<^verbatim>\<open>r[0]\<close> on a
  slice of length 0 is a runtime panic.
\<close>

definition DownloadLatestFromGithub ::
  "jsonlib \<Rightarrow> env \<Rightarrow> filesystem \<Rightarrow> string \<Rightarrow> error option outcome \<times> filesystem" where
  "DownloadLatestFromGithub lib ev fs path =
     (case GetGithubReleases lib ev 1 1 of
        Inl e \<Rightarrow> (Returns (Some e), fs)
      | Inr r \<Rightarrow>
          (case r of
             [] \<Rightarrow> (Panics ''runtime error: index out of range [0] with length 0'', fs)
           | d # _ \<Rightarrow>
               (case DownloadFromGithub ev fs path (TagName d) of
                  (Some e, fs1) \<Rightarrow>
                    (Returns (Some (Wrapped ''failed to download bin from GitHub releases: '' e)), fs1)
                | (None, fs1) \<Rightarrow> (Returns None, fs1))))"

section \<open>Concrete inputs\<close>

text \<open>
  Stand-ins for the two library functions, used on concrete inputs only: on a string
  token without escapes and with well-formed UTF-8, \<^verbatim>\<open>unquoteBytes\<close> strips the two
  quotes; on ASCII names, \<^verbatim>\<open>foldName\<close> maps the lower-case letters to upper case.
\<close>

definition strip_quotes :: "string \<Rightarrow> string" where
  "strip_quotes item = butlast (tl item)"

definition ascii_upper :: "char \<Rightarrow> char" where
  "ascii_upper c =
     (if c \<in> set ''abcdefghijklmnopqrstuvwxyz'' then char_of (of_char c - (32::nat)) else c)"

definition plain_lib :: jsonlib where
  "plain_lib = \<lparr>unquote = strip_quotes, foldName = map ascii_upper\<rparr>"

definition inst0 :: YTDLPInstance where
  "inst0 = \<lparr>bPath = ''/usr/local/bin/yt-dlp''\<rparr>"

text \<open>
  A binary that prints one metadata object, a line feed and a warning, and exits with
  status 0; and one that prints an object with a negative duration.  The first object
  has a title that is first \<^verbatim>\<open>null\<close> and then given under the key \<^verbatim>\<open>Title\<close>, a member
  that names no field, and two durations.
\<close>

definition metadata_sys :: sys where
  \<open>metadata_sys =
     \<lparr>run = (\<lambda>name args.
        (''{"title":null,"id":"x","Title":"t","n":[1,{}],"thumbnail":"u","duration":7,"duration":42}''
           @ [CHR 0x0A] @ ''WARNING: falling back'', None)),
      spawn = (\<lambda>name args. Inl ''exec: not started'')\<rparr>\<close>

definition negative_sys :: sys where
  \<open>negative_sys =
     \<lparr>run = (\<lambda>name args. (''{"id":"x","title":"t","thumbnail":"u","duration":-42}'', None)),
      spawn = (\<lambda>name args. Inl ''exec: not started'')\<rparr>\<close>

text \<open>A binary that prints a warning and an error on its standard error, then exits.\<close>

definition failing_sys :: sys where
  "failing_sys =
     \<lparr>run = (\<lambda>name args. ([], Some ''exit status 1'')),
      spawn = (\<lambda>name args.
        Inr \<lparr>stdout = [],
             stderr = [''WARNING: slow network'', ''ERROR: disk full'', ''[debug] exiting'']\<rparr>)\<rparr>"

text \<open>A binary that prints two lines without a marker on its standard error, then exits.\<close>

definition quiet_sys :: sys where
  "quiet_sys =
     \<lparr>run = (\<lambda>name args. ([], None)),
      spawn = (\<lambda>name args.
        Inr \<lparr>stdout = [], stderr = [''[youtube] extracting'', ''WARNING: slow network'']\<rparr>)\<rparr>"

text \<open>A release listing with zero entries, and a file system with one file of mode 0600.\<close>

definition empty_listing_env :: env where
  "empty_listing_env =
     \<lparr>http_get = (\<lambda>url. Inr ''[]''),
      fault = (\<lambda>call name. None),
      copy_stops = (\<lambda>name. None),
      umask = 0x12\<rparr>"

definition fs0 :: filesystem where
  "fs0 = [''/tmp/yt-dlp'' \<mapsto> \<lparr>mode = 0x180, content = ''#!/bin/sh''\<rparr>]"

section \<open>The streaming handshake\<close>

lemma error_prefix_not_download: "prefix errorPrefix line \<Longrightarrow> \<not> prefix downloadPrefix line"
  by (auto simp: errorPrefix_def downloadPrefix_def prefix_def)

lemma scan_loop_skips:
  "\<forall>l\<in>set skipped. \<not> prefix downloadPrefix l \<and> \<not> prefix errorPrefix l \<Longrightarrow>
     scan_loop (skipped @ rest) closes = scan_loop rest closes"
  by (induction skipped) auto

text \<open>
  The first line that carries a marker decides the handshake.  Let the lines \<open>skipped\<close>
  carry neither prefix.  If the next line begins with \<^verbatim>\<open>[download]\<close>, the caller receives
  nil; if it is \<^verbatim>\<open>ERROR: \<close> followed by \<open>msg\<close>, the caller receives an error whose message
  is \<open>msg\<close>.  The skipped lines have no effect, and neither has the state of the pipe.
\<close>

lemma handshake_first_marker:
  "\<forall>l\<in>set skipped. \<not> prefix downloadPrefix l \<and> \<not> prefix errorPrefix l \<Longrightarrow>
     (prefix downloadPrefix line \<longrightarrow> handshake (skipped @ line # rest) closes = Some None) \<and>
     (line = errorPrefix @ msg \<longrightarrow>
        handshake (skipped @ line # rest) closes = Some (Some (Err msg)))"
proof (intro conjI impI)
  assume skip: "\<forall>l\<in>set skipped. \<not> prefix downloadPrefix l \<and> \<not> prefix errorPrefix l"
  {
    assume "prefix downloadPrefix line"
    then show "handshake (skipped @ line # rest) closes = Some None"
      using scan_loop_skips [OF skip, of "line # rest" closes]
      by (simp add: handshake_def stderr_task_def)
  next
    assume l: "line = errorPrefix @ msg"
    then have "prefix errorPrefix line" by simp
    with l show "handshake (skipped @ line # rest) closes = Some (Some (Err msg))"
      using scan_loop_skips [OF skip, of "line # rest" closes] error_prefix_not_download [of line]
      by (simp add: handshake_def stderr_task_def)
  }
qed

lemma handshake_first_marker_examples:
  "handshake [''[youtube] extracting'', ''[download]   1.0% of 3MiB'', ''ERROR: late''] False
     = Some None
   \<and> handshake [''WARNING: slow network'', ''ERROR: disk full'', ''[download] 1%''] False
     = Some (Some (Err ''disk full''))"
  using handshake_first_marker [of "[''[youtube] extracting'']" "''[download]   1.0% of 3MiB''"
          "[''ERROR: late'']" False]
        handshake_first_marker [of "[''WARNING: slow network'']" "''ERROR: disk full''"
          "[''[download] 1%'']" False "''disk full''"]
  by (simp add: downloadPrefix_def errorPrefix_def)

text \<open>
  Lines without a marker: the goroutine would send nil if the scanner met the end of the
  stream (line 143), and it waits for ever while the write end of the pipe stays open.
\<close>

lemma handshake_without_marker:
  "\<forall>l\<in>set skipped. \<not> prefix downloadPrefix l \<and> \<not> prefix errorPrefix l \<Longrightarrow>
     handshake skipped True = Some None \<and> handshake skipped False = None"
  using scan_loop_skips [of skipped "[]"] by (simp add: handshake_def stderr_task_def)

lemma ExecuteStream_without_marker:
  "spawn os (bPath inst) (url # args @ [''-o'', ''-'', ''--newline'']) = Inr p \<Longrightarrow>
     \<forall>l\<in>set (stderr p). \<not> prefix downloadPrefix l \<and> \<not> prefix errorPrefix l \<Longrightarrow>
     fst (ExecuteStream os inst url args ls) = Blocks"
  using handshake_without_marker [of "stderr p"]
  by (simp add: ExecuteStream_def Let_def stderrW_closed_def)

text \<open>
  Claim C3 says, besides the two marker cases above, that the handshake returns nil when
  the standard error ends with neither prefix on any line.  The code never gets there:
  the pipe it scans is never closed, so after the last line of a process that has exited
  the scanner waits, nothing is sent, and \<^verbatim>\<open>ExecuteStream\<close> does not return.  Below, the
  process prints two lines without a marker and exits.
\<close>

theorem ExecuteStream_without_marker_blocks:
  "fst (ExecuteStream quiet_sys inst0 ''https://example.org/v'' [] []) = Blocks"
  by (simp add: ExecuteStream_def Let_def quiet_sys_def handshake_def stderr_task_def
      stderrW_closed_def downloadPrefix_def errorPrefix_def)

text \<open>
  After \<^verbatim>\<open>break\<close>, at a download line or at the end of the stream, the goroutine sends nil
  and then discards the rest of the stream.
\<close>

lemma break_branch_drains:
  "scan_loop lines closes = Break rest \<Longrightarrow> stderr_task lines closes = [Send None, Discard rest]"
  by (simp add: stderr_task_def)

text \<open>After \<^verbatim>\<open>return\<close>, at an error line, it sends the error and that is all.\<close>

lemma return_branch_ends:
  "scan_loop lines closes = Return e rest \<Longrightarrow> stderr_task lines closes = [Send (Some e)]"
  by (simp add: stderr_task_def)

text \<open>
  Claim C4 says that the standard error is read to its end and discarded after the
  handshake on every branch.  On the error branch the goroutine sends the error and
  returns: for the two lines below it does nothing after the send, so the line that
  follows the error line is never read.
\<close>

theorem error_branch_returns_without_drain:
  "stderr_task [''ERROR: disk full'', ''[debug] exiting''] stderrW_closed
     = [Send (Some (Err ''disk full''))]"
  by (simp add: stderr_task_def downloadPrefix_def errorPrefix_def)

section \<open>Argument vectors and validation\<close>

text \<open>
  Claim C6.  For every url, the empty one included, and all extra arguments,
  \<^verbatim>\<open>ExecuteStream\<close> starts the binary with the url, then the extra arguments, then
  \<^verbatim>\<open>-o - --newline\<close>; nothing is checked before the start.
\<close>

theorem ExecuteStream_argument_vector:
  "snd (ExecuteStream os inst url args ls)
     = ls @ [(bPath inst, url # args @ [''-o'', ''-'', ''--newline''])]"
  by (simp add: ExecuteStream_def Let_def split: sum.split option.split)

theorem ExecuteStream_argument_vector_witness:
  "snd (ExecuteStream failing_sys inst0 [] [''-f'', ''best''] [])
     = [(''/usr/local/bin/yt-dlp'', [[], ''-f'', ''best'', ''-o'', ''-'', ''--newline''])]"
  using ExecuteStream_argument_vector [of failing_sys inst0 "[]" "[''-f'', ''best'']" "[]"]
  by (simp add: inst0_def)

text \<open>
  Claim C7.  When the process has started, \<^verbatim>\<open>ExecuteStream\<close> returns the read end of the
  standard output together with whatever the handshake gave, nil or an error: the reader
  is not nil on either branch.  (It does not return when the handshake waits for ever.)
\<close>

theorem ExecuteStream_reader_not_nil:
  "spawn os (bPath inst) (url # args @ [''-o'', ''-'', ''--newline'']) = Inr p \<Longrightarrow>
     fst (ExecuteStream os inst url args ls)
       = (case handshake (stderr p) stderrW_closed of
            None \<Rightarrow> Blocks
          | Some e \<Rightarrow> Returns (Some (PipeReader (stdout p)), e))"
  by (simp add: ExecuteStream_def Let_def split: option.split)

theorem ExecuteStream_reader_not_nil_witness:
  "fst (ExecuteStream failing_sys inst0 ''https://example.org/v'' [''-f'', ''best''] [])
     = Returns (Some (PipeReader []), Some (Err ''disk full''))"
  using ExecuteStream_reader_not_nil [of failing_sys inst0 "''https://example.org/v''"
      "[''-f'', ''best'']"
      "\<lparr>stdout = [], stderr = [''WARNING: slow network'', ''ERROR: disk full'', ''[debug] exiting'']\<rparr>"
      "[]"]
  by (simp add: failing_sys_def handshake_def stderr_task_def downloadPrefix_def errorPrefix_def)

text \<open>
  For the empty url, \<^verbatim>\<open>Execute\<close> and \<^verbatim>\<open>DumpStdout\<close> return the error "empty url" and
  launch nothing.
\<close>

lemma empty_url_rejected:
  "Execute os inst [] args ls = (Some (Err ''empty url''), ls)
   \<and> DumpStdout os inst [] args ls = (([], Some (Err ''empty url'')), ls)"
  by (simp add: Execute_def DumpStdout_def)

text \<open>\<^verbatim>\<open>GetVideoInfo\<close> has no such check: every query, the empty one too, launches the binary.\<close>

lemma GetVideoInfo_always_launches:
  "snd (GetVideoInfo lib os inst query ls) = ls @ [(bPath inst, GetVideoInfo_args query)]"
  by (simp add: GetVideoInfo_def Let_def split: prod.split)

text \<open>
  Claim C2 says that \<^verbatim>\<open>Execute\<close>, \<^verbatim>\<open>DumpStdout\<close> and \<^verbatim>\<open>GetVideoInfo\<close> all fail on the empty
  target with a validation error and launch nothing.  \<^verbatim>\<open>GetVideoInfo\<close> does not: with a
  binary that prints a metadata object, the empty query launches the binary, with
  \<^verbatim>\<open>ytsearch:\<close> as the first argument, and succeeds.
\<close>

theorem GetVideoInfo_empty_query_launches:
  "GetVideoInfo plain_lib metadata_sys inst0 [] []
     = (Inr \<lparr>Id' = ''x'', Title = ''t'', Thumbnail = ''u'', Duration = 42\<rparr>,
        [(''/usr/local/bin/yt-dlp'',
          [''ytsearch:'', ''-s'', ''-O'', ''%(.{id,title,thumbnail,duration})#j''])])"
  by code_simp

text \<open>
  Claim C5, as amended.  For a non-empty url, \<^verbatim>\<open>Execute\<close> launches the binary with the url
  followed by the extra arguments, and \<^verbatim>\<open>DumpStdout\<close> with the extra arguments followed by
  the url; with no extra arguments the two vectors are the same, the url alone.
\<close>

theorem argument_vectors:
  "url \<noteq> [] \<Longrightarrow>
     snd (Execute os inst url args ls) = ls @ [(bPath inst, url # args)]
     \<and> snd (DumpStdout os inst url args ls) = ls @ [(bPath inst, args @ [url])]
     \<and> snd (DumpStdout os inst url [] ls) = snd (Execute os inst url [] ls)"
  by (simp add: Execute_def DumpStdout_def Let_def split: prod.split)

theorem argument_vectors_witness:
  "snd (Execute metadata_sys inst0 ''https://example.org/v'' [''-f'', ''best''] [])
     = [(''/usr/local/bin/yt-dlp'', [''https://example.org/v'', ''-f'', ''best''])]
   \<and> snd (DumpStdout metadata_sys inst0 ''https://example.org/v'' [''-f'', ''best''] [])
     = [(''/usr/local/bin/yt-dlp'', [''-f'', ''best'', ''https://example.org/v''])]
   \<and> snd (DumpStdout metadata_sys inst0 ''https://example.org/v'' [] [])
     = snd (Execute metadata_sys inst0 ''https://example.org/v'' [] [])"
  using argument_vectors [of "''https://example.org/v''" metadata_sys inst0 "[''-f'', ''best'']" "[]"]
  by (simp add: inst0_def)

text \<open>
  The claim as first stated fails with one extra argument: the vector of \<^verbatim>\<open>DumpStdout\<close>
  begins with that argument, not with the url, and differs from the vector of \<^verbatim>\<open>Execute\<close>.
\<close>

theorem DumpStdout_vector_counterexample:
  "snd (DumpStdout metadata_sys inst0 ''https://example.org/v'' [''-f'', ''best''] [])
     = [(''/usr/local/bin/yt-dlp'', [''-f'', ''best'', ''https://example.org/v''])]
   \<and> snd (DumpStdout metadata_sys inst0 ''https://example.org/v'' [''-f'', ''best''] [])
     \<noteq> snd (Execute metadata_sys inst0 ''https://example.org/v'' [''-f'', ''best''] [])"
  by (simp add: Execute_def DumpStdout_def Let_def inst0_def metadata_sys_def)

section \<open>Installation\<close>

text \<open>
  Claim C8.  When \<^verbatim>\<open>setExecPermission\<close> succeeds, the file existed, and its new mode is the
  old mode or-ed with octal 0111: every bit of the old mode is still set, and so are the
  three execute bits.  Nothing else in the file system changes.
\<close>

theorem setExecPermission_adds_exec_bits:
  "setExecPermission ev fs fpath = (None, fs') \<Longrightarrow>
     \<exists>f. fs fpath = Some f
       \<and> fs' = fs(fpath \<mapsto> f\<lparr>mode := mode f OR 0x49\<rparr>)
       \<and> (mode f OR 0x49) AND mode f = mode f
       \<and> (mode f OR 0x49) AND 0x49 = 0x49"
  by (auto simp: setExecPermission_def Stat_def Chmod_def word_bw_assocs
      split: option.splits sum.splits)

theorem setExecPermission_adds_exec_bits_witness:
  "setExecPermission empty_listing_env fs0 ''/tmp/yt-dlp''
     = (None, fs0(''/tmp/yt-dlp'' \<mapsto> \<lparr>mode = 0x1C9, content = ''#!/bin/sh''\<rparr>))
   \<and> (\<exists>f. fs0 ''/tmp/yt-dlp'' = Some f
       \<and> (mode f OR 0x49) AND mode f = mode f
       \<and> (mode f OR 0x49) AND 0x49 = 0x49)"
proof -
  have r: "setExecPermission empty_listing_env fs0 ''/tmp/yt-dlp''
     = (None, fs0(''/tmp/yt-dlp'' \<mapsto> \<lparr>mode = 0x1C9, content = ''#!/bin/sh''\<rparr>))"
    by (simp add: setExecPermission_def Stat_def Chmod_def empty_listing_env_def fs0_def)
  from setExecPermission_adds_exec_bits [OF r] r show ?thesis by blast
qed

text \<open>An empty listing is not an error of \<^verbatim>\<open>GetGithubReleases\<close>, and the caller indexes it.\<close>

lemma empty_listing_panics:
  "GetGithubReleases lib ev 1 1 = Inr [] \<Longrightarrow>
     DownloadLatestFromGithub lib ev fs path
       = (Panics ''runtime error: index out of range [0] with length 0'', fs)"
  by (simp add: DownloadLatestFromGithub_def)

text \<open>
  Claim C1 says that a release listing with zero entries makes the installation fail with
  an error.  The code indexes the empty slice: for the listing \<^verbatim>\<open>[]\<close> it panics.
\<close>

theorem DownloadLatestFromGithub_empty_listing_panics:
  "fst (DownloadLatestFromGithub plain_lib empty_listing_env fs0 ''/tmp/yt-dlp'')
     = Panics ''runtime error: index out of range [0] with length 0''"
  by code_simp

section \<open>Decoding the metadata\<close>

lemma ParseUint_minus: "ParseUint (CHR ''-'' # ds) = None"
  by (simp add: ParseUint_def isDigit_def)

lemma find_field_duration: "find_field lib YTDLPVideoInfo_fields ''duration'' = Some ''duration''"
  by (simp add: find_field_def YTDLPVideoInfo_fields_def)

lemma saveError_Some: "\<exists>e'. saveError e saved = Some e'"
  by (cases saved) (simp_all add: saveError_def)

text \<open>A saved error stays: no later member of the object clears or replaces it.\<close>

lemma member_keeps_error:
  "snd st = Some e \<Longrightarrow> snd (member_YTDLPVideoInfo lib st m) = Some e"
  by (cases st; cases m)
     (auto simp: member_YTDLPVideoInfo_def saveError_def split: option.split sum.split)

lemma members_keep_error:
  "snd st = Some e \<Longrightarrow> snd (foldl (member_YTDLPVideoInfo lib) st ms) = Some e"
  by (induction ms arbitrary: st) (simp_all add: member_keeps_error)

lemma member_negative_duration:
  "unquote lib k = ''duration'' \<Longrightarrow>
     \<exists>e. snd (member_YTDLPVideoInfo lib st (k, JLit (CHR ''-'' # ds))) = Some e"
  by (cases st)
     (simp add: member_YTDLPVideoInfo_def find_field_duration value_uint_def
        literalStore_uint_def ParseUint_minus saveError_Some)

lemma members_negative_duration:
  "(k, JLit (CHR ''-'' # ds)) \<in> set ms \<Longrightarrow> unquote lib k = ''duration'' \<Longrightarrow>
     \<exists>e. snd (foldl (member_YTDLPVideoInfo lib) st ms) = Some e"
proof (induction ms arbitrary: st)
  case Nil
  then show ?case by simp
next
  case (Cons m ms)
  show ?case
  proof (cases "m = (k, JLit (CHR ''-'' # ds))")
    case True
    with Cons.prems(2) obtain e where "snd (member_YTDLPVideoInfo lib st m) = Some e"
      using member_negative_duration [of lib k st ds] by auto
    then show ?thesis by (simp add: members_keep_error)
  next
    case False
    with Cons.prems have "(k, JLit (CHR ''-'' # ds)) \<in> set ms" by simp
    from Cons.IH [OF this Cons.prems(2)] show ?thesis by simp
  qed
qed

text \<open>
  Claim C9.  The duration of a decoded metadata value is an unsigned 64-bit integer, so
  it is never negative.  And when the first JSON value of the output is an object with a
  member whose key denotes \<^verbatim>\<open>duration\<close> and whose value is a number token that begins with
  a minus sign, \<^verbatim>\<open>decodeVideoInfo\<close> returns a decoding error and no metadata value,
  whatever the other members are; \<^verbatim>\<open>GetVideoInfo\<close>, when the binary printed that output
  and exited with status 0, returns this error behind "failed to decode video info: ".
\<close>

theorem negative_duration_is_decode_error:
  "(decodeVideoInfo lib out = Inr vi \<longrightarrow> 0 \<le> uint (Duration vi)) \<and>
   (readValue out reset builder0 out = Inr (JObject ms)
      \<and> (k, JLit (CHR ''-'' # ds)) \<in> set ms \<and> unquote lib k = ''duration''
    \<longrightarrow> (\<exists>e. decodeVideoInfo lib out = Inl (JsonErr e)
           \<and> (run os (bPath inst) (GetVideoInfo_args query) = (out, None) \<longrightarrow>
                fst (GetVideoInfo lib os inst query ls)
                  = Inl (Wrapped ''failed to decode video info: '' (JsonErr e)))))"
proof (intro conjI impI)
  show "0 \<le> uint (Duration vi)" by simp
next
  assume h: "readValue out reset builder0 out = Inr (JObject ms)
      \<and> (k, JLit (CHR ''-'' # ds)) \<in> set ms \<and> unquote lib k = ''duration''"
  then have "\<exists>e. snd (foldl (member_YTDLPVideoInfo lib) (YTDLPVideoInfo_zero, None) ms) = Some e"
    using members_negative_duration [of k ds ms lib] by blast
  then obtain vi' e where
    "foldl (member_YTDLPVideoInfo lib) (YTDLPVideoInfo_zero, None) ms = (vi', Some e)"
    by (cases "foldl (member_YTDLPVideoInfo lib) (YTDLPVideoInfo_zero, None) ms") auto
  with h have d: "decodeVideoInfo lib out = Inl (JsonErr e)"
    by (simp add: decodeVideoInfo_def Decode_def unmarshal_YTDLPVideoInfo_def value_struct_def)
  then have "run os (bPath inst) (GetVideoInfo_args query) = (out, None) \<longrightarrow>
      fst (GetVideoInfo lib os inst query ls)
        = Inl (Wrapped ''failed to decode video info: '' (JsonErr e))"
    by (simp add: GetVideoInfo_def Let_def)
  with d show "\<exists>e. decodeVideoInfo lib out = Inl (JsonErr e)
           \<and> (run os (bPath inst) (GetVideoInfo_args query) = (out, None) \<longrightarrow>
                fst (GetVideoInfo lib os inst query ls)
                  = Inl (Wrapped ''failed to decode video info: '' (JsonErr e)))"
    by blast
qed

theorem negative_duration_is_decode_error_witness:
  \<open>\<exists>e. decodeVideoInfo plain_lib ''{"id":"x","title":"t","thumbnail":"u","duration":-42}''
           = Inl (JsonErr e)
       \<and> fst (GetVideoInfo plain_lib negative_sys inst0 ''some song'' [])
           = Inl (Wrapped ''failed to decode video info: '' (JsonErr e))\<close>
proof -
  let ?out = \<open>''{"id":"x","title":"t","thumbnail":"u","duration":-42}''\<close>
  let ?ms = \<open>[(''"id"'', JLit ''"x"''), (''"title"'', JLit ''"t"''),
               (''"thumbnail"'', JLit ''"u"''), (''"duration"'', JLit ''-42'')]\<close>
  have scan: "readValue ?out reset builder0 ?out = Inr (JObject ?ms)"
    by code_simp
  have key: \<open>unquote plain_lib ''"duration"'' = ''duration''\<close>
    by (simp add: plain_lib_def strip_quotes_def)
  have mem: \<open>(''"duration"'', JLit (CHR ''-'' # ''42'')) \<in> set ?ms\<close>
    by simp
  have run: "run negative_sys (bPath inst0) (GetVideoInfo_args ''some song'') = (?out, None)"
    by (simp add: negative_sys_def)
  from negative_duration_is_decode_error [of plain_lib ?out _ ?ms \<open>''"duration"''\<close> "''42''"
      negative_sys inst0 "''some song''" "[]"]
    scan key mem run
  show ?thesis by blast
qed

text \<open>
  The scanner after a closing brace.  If the brace does not stop the loop of
  \<open>readValue\<close>, the scanner is inside a string or after a value of an object or array
  that is still open, and a space then does not end the top-level value.
\<close>

lemma stateEndValue_brace:
  "stateEndValue s CHR ''}'' = (op, s') \<Longrightarrow> op \<noteq> scanEnd \<Longrightarrow> op \<noteq> scanError \<Longrightarrow>
     \<not> ((op = scanEndObject \<or> op = scanEndArray) \<and> fst (stateEndValue s' CHR '' '') = scanEnd) \<Longrightarrow>
     step s' = StEndValue \<and> parseState s' \<noteq> []"
  by (cases "parseState s")
     (auto simp: stateEndValue_def stateEndTop_def scan_error_def isSpace_def popParseState_def
        Let_def split: if_splits parse_state.splits list.splits)

lemma space_after_value:
  "step s = StEndValue \<Longrightarrow> parseState s \<noteq> [] \<Longrightarrow> fst (scan_step s CHR '' '') = scanSkipSpace"
  by (cases "parseState s") (simp_all add: scan_step_def stateEndValue_def isSpace_def)

lemma space_in_string:
  "step s = StInString \<Longrightarrow> fst (scan_step s CHR '' '') = scanContinue"
  by (simp add: scan_step_def stateInString_def)

lemma brace_not_last:
  assumes "scan_step s CHR ''}'' = (op, s')" "op \<noteq> scanEnd" "op \<noteq> scanError"
    and "\<not> ((op = scanEndObject \<or> op = scanEndArray) \<and> fst (stateEndValue s' CHR '' '') = scanEnd)"
  shows "fst (scan_step s' CHR '' '') \<noteq> scanEnd"
proof -
  have "(step s' = StEndValue \<and> parseState s' \<noteq> []) \<or> step s' = StInString"
  proof (cases "step s")
    case StInString
    with assms show ?thesis by (auto simp: scan_step_def stateInString_def scan_error_def)
  next
    case StEndValue
    with assms stateEndValue_brace [of s op s'] show ?thesis by (simp add: scan_step_def)
  next
    case StBeginStringOrEmpty
    with assms stateEndValue_brace [of "s\<lparr>parseState := (parseState s)[0 := parseObjectValue]\<rparr>" op s']
    show ?thesis by (simp add: scan_step_def stateBeginStringOrEmpty_def isSpace_def)
  next
    case St1
    with assms stateEndValue_brace [of s op s'] show ?thesis
      by (simp add: scan_step_def state1_def state0_def isDigit_def)
  next
    case St0
    with assms stateEndValue_brace [of s op s'] show ?thesis
      by (simp add: scan_step_def state0_def)
  next
    case StDot0
    with assms stateEndValue_brace [of s op s'] show ?thesis
      by (simp add: scan_step_def stateDot0_def isDigit_def)
  next
    case StE0
    with assms stateEndValue_brace [of s op s'] show ?thesis
      by (simp add: scan_step_def stateE0_def isDigit_def)
  qed (use assms in \<open>auto simp: scan_step_def stateBeginValueOrEmpty_def stateBeginValue_def
      stateBeginString_def stateEndTop_def stateInStringEsc_def stateInStringEscU_n_def
      stateNeg_def stateDot_def stateE_def stateESign_def stateLetter_def scan_error_def
      isSpace_def isDigit_def isDigit19_def isHex_def pushParseState_def Let_def
      split: if_splits\<close>)
  then show ?thesis
    using space_after_value [of s'] space_in_string [of s'] by auto
qed

text \<open>
  A successful read of an input that ends with a closing brace has stopped at a byte of
  the input, so bytes appended to the input are never looked at.
\<close>

lemma readValue_ignores_rest:
  "cs \<noteq> [] \<Longrightarrow> last cs = CHR ''}'' \<Longrightarrow> readValue buf s b cs = Inr v \<Longrightarrow>
     readValue buf' s b (cs @ rest) = Inr v"
proof (induction cs arbitrary: s b)
  case Nil
  then show ?case by simp
next
  case (Cons c cs)
  obtain op s' where st: "scan_step s c = (op, s')" by (cases "scan_step s c")
  show ?case
  proof (cases "op = scanEnd \<or> op = scanError
      \<or> ((op = scanEndObject \<or> op = scanEndArray) \<and> fst (stateEndValue s' CHR '' '') = scanEnd)")
    case True
    with Cons.prems(3) st show ?thesis by (auto split: option.splits)
  next
    case False
    with Cons.prems(3) st have rec: "readValue buf s' (build b c op) cs = Inr v" by auto
    have "cs \<noteq> []"
    proof
      assume e: "cs = []"
      with Cons.prems(2) have "c = CHR ''}''" by simp
      with st False have "fst (scan_step s' CHR '' '') \<noteq> scanEnd"
        using brace_not_last [of s op s'] by blast
      with rec e show False by (simp split: if_splits)
    qed
    with Cons.prems(2) have "last cs = CHR ''}''" by simp
    from Cons.IH [OF \<open>cs \<noteq> []\<close> this rec] False st show ?thesis by auto
  qed
qed

lemma Decode_ignores_trailing_bytes:
  "obj \<noteq> [] \<Longrightarrow> last obj = CHR ''}'' \<Longrightarrow> readValue obj reset builder0 obj = Inr v \<Longrightarrow>
     Decode unmarshal (obj @ trailing) = Decode unmarshal obj"
  using readValue_ignores_rest [of obj obj reset builder0 v "obj @ trailing" trailing]
  by (simp add: Decode_def)

text \<open>
  The decoder against the fields of an object: member by member, a well-typed member
  stores what \<open>object_fields\<close> says, and no error is saved.
\<close>

lemma names_field_iff:
  "names_field lib k f \<longleftrightarrow> find_field lib YTDLPVideoInfo_fields (unquote lib k) = Some f"
  by (auto simp: names_field_def find_field_def Let_def)

lemma find_field_cases:
  "find_field lib YTDLPVideoInfo_fields key = Some f \<Longrightarrow>
     f = ''id'' \<or> f = ''title'' \<or> f = ''thumbnail'' \<or> f = ''duration''"
  by (auto simp: find_field_def YTDLPVideoInfo_fields_def split: if_splits)

lemma token_of_snoc:
  "token_of lib f (ms @ [(k, v)]) =
     (if names_field lib k f \<and> \<not> is_null v
      then (case v of JLit item \<Rightarrow> Some item | _ \<Rightarrow> None)
      else token_of lib f ms)"
  by (simp add: token_of_def)

lemma ParseUint_typed:
  "list_all isDigit (c # item) \<Longrightarrow> decimal_value (c # item) < 2 ^ 64 \<Longrightarrow>
     ParseUint (c # item) = Some (word_of_int (decimal_value (c # item)))"
  by (simp add: ParseUint_def decimal_value_def Let_def)

lemma digit_first:
  "isDigit c \<Longrightarrow> c \<noteq> CHR ''n'' \<and> c \<noteq> CHR ''t'' \<and> c \<noteq> CHR ''f'' \<and> c \<noteq> CHR 0x22"
  by (auto simp: isDigit_def)

lemma member_unknown:
  "find_field lib YTDLPVideoInfo_fields (unquote lib k) = None \<Longrightarrow>
     member_YTDLPVideoInfo lib (object_fields lib ms, None) (k, v)
       = (object_fields lib (ms @ [(k, v)]), None)"
  by (simp add: member_YTDLPVideoInfo_def object_fields_def string_field_def token_of_snoc
      names_field_iff)

lemma member_known:
  assumes ff: "find_field lib YTDLPVideoInfo_fields (unquote lib k) = Some f"
    and ty: "typed_for f v"
  shows "member_YTDLPVideoInfo lib (object_fields lib ms, None) (k, v)
       = (object_fields lib (ms @ [(k, v)]), None)"
proof -
  from ty obtain c item where v: "v = JLit (c # item)"
    by (auto simp: typed_for_def split: json.splits list.splits)
  have other: "\<And>g. g \<noteq> f \<Longrightarrow> token_of lib g (ms @ [(k, v)]) = token_of lib g ms"
    using ff by (simp add: token_of_snoc names_field_iff)
  have this_field: "token_of lib f (ms @ [(k, v)])
      = (if c = CHR ''n'' then token_of lib f ms else Some (c # item))"
    using ff v by (simp add: token_of_snoc names_field_iff is_null_def)
  from find_field_cases [OF ff] show ?thesis
  proof (elim disjE)
    assume f: "f = ''id''"
    with ty v ff other this_field show ?thesis
      by (auto simp: member_YTDLPVideoInfo_def object_fields_def string_field_def
          value_string_def literalStore_string_def typed_for_def)
  next
    assume f: "f = ''title''"
    with ty v ff other this_field show ?thesis
      by (auto simp: member_YTDLPVideoInfo_def object_fields_def string_field_def
          value_string_def literalStore_string_def typed_for_def)
  next
    assume f: "f = ''thumbnail''"
    with ty v ff other this_field show ?thesis
      by (auto simp: member_YTDLPVideoInfo_def object_fields_def string_field_def
          value_string_def literalStore_string_def typed_for_def)
  next
    assume f: "f = ''duration''"
    show ?thesis
    proof (cases "c = CHR ''n''")
      case True
      with f v ff other this_field show ?thesis
        by (auto simp: member_YTDLPVideoInfo_def object_fields_def string_field_def
            value_uint_def literalStore_uint_def)
    next
      case False
      with ty v f have d: "list_all isDigit (c # item)" "decimal_value (c # item) < 2 ^ 64"
        by (auto simp: typed_for_def)
      from d(1) have "isDigit c" by simp
      from digit_first [OF this] ParseUint_typed [OF d] f v ff other this_field False
      show ?thesis
        by (auto simp: member_YTDLPVideoInfo_def object_fields_def string_field_def
            value_uint_def literalStore_uint_def)
    qed
  qed
qed

lemma member_well_typed:
  "well_typed lib (k, v) \<Longrightarrow>
     member_YTDLPVideoInfo lib (object_fields lib ms, None) (k, v)
       = (object_fields lib (ms @ [(k, v)]), None)"
proof (cases "find_field lib YTDLPVideoInfo_fields (unquote lib k)")
  case None
  then show ?thesis by (rule member_unknown)
next
  case (Some f)
  assume "well_typed lib (k, v)"
  with Some find_field_cases [OF Some] have "typed_for f v"
    by (auto simp: well_typed_def YTDLPVideoInfo_fields_def names_field_iff)
  with Some show ?thesis by (rule member_known)
qed

lemma object_fields_Nil: "object_fields lib [] = YTDLPVideoInfo_zero"
  by (simp add: object_fields_def string_field_def token_of_def YTDLPVideoInfo_zero_def)

lemma members_well_typed:
  "list_all (well_typed lib) ms \<Longrightarrow>
     foldl (member_YTDLPVideoInfo lib) (YTDLPVideoInfo_zero, None) ms = (object_fields lib ms, None)"
proof (induction ms rule: rev_induct)
  case Nil
  then show ?case by (simp add: object_fields_Nil)
next
  case (snoc m ms)
  then show ?case by (cases m) (simp add: member_well_typed)
qed

text \<open>
  Claim C10, as amended.  Let \<open>obj\<close> be the text of a JSON object with the members \<open>ms\<close>,
  followed by any bytes at all.  The bytes after the object are never read: the result
  is that of \<open>obj\<close> alone.  If every member is well typed, \<^verbatim>\<open>decodeVideoInfo\<close> succeeds and
  returns the fields of the object, and so does \<^verbatim>\<open>GetVideoInfo\<close> when the binary has
  printed this output and exited with status 0: that the output is exactly one JSON
  object is not enforced.
\<close>

theorem first_object_decoded:
  "obj \<noteq> [] \<Longrightarrow> last obj = CHR ''}'' \<Longrightarrow>
   readValue obj reset builder0 obj = Inr (JObject ms) \<Longrightarrow>
     decodeVideoInfo lib (obj @ trailing) = decodeVideoInfo lib obj
     \<and> (list_all (well_typed lib) ms \<longrightarrow>
          decodeVideoInfo lib (obj @ trailing) = Inr (object_fields lib ms)
          \<and> (run os (bPath inst) (GetVideoInfo_args query) = (obj @ trailing, None) \<longrightarrow>
               fst (GetVideoInfo lib os inst query ls) = Inr (object_fields lib ms)))"
proof -
  assume ne: "obj \<noteq> []" and l: "last obj = CHR ''}''"
    and v: "readValue obj reset builder0 obj = Inr (JObject ms)"
  have same: "decodeVideoInfo lib (obj @ trailing) = decodeVideoInfo lib obj"
    using Decode_ignores_trailing_bytes [OF ne l v, of "unmarshal_YTDLPVideoInfo lib" trailing]
    by (simp add: decodeVideoInfo_def)
  have "decodeVideoInfo lib (obj @ trailing) = Inr (object_fields lib ms)
          \<and> (run os (bPath inst) (GetVideoInfo_args query) = (obj @ trailing, None) \<longrightarrow>
               fst (GetVideoInfo lib os inst query ls) = Inr (object_fields lib ms))"
    if ty: "list_all (well_typed lib) ms"
  proof -
    from v members_well_typed [OF ty]
    have "decodeVideoInfo lib obj = Inr (object_fields lib ms)"
      by (simp add: decodeVideoInfo_def Decode_def unmarshal_YTDLPVideoInfo_def value_struct_def)
    with same have t: "decodeVideoInfo lib (obj @ trailing) = Inr (object_fields lib ms)"
      by simp
    then have "run os (bPath inst) (GetVideoInfo_args query) = (obj @ trailing, None) \<longrightarrow>
        fst (GetVideoInfo lib os inst query ls) = Inr (object_fields lib ms)"
      by (simp add: GetVideoInfo_def Let_def)
    with t show ?thesis by blast
  qed
  with same show ?thesis by blast
qed

theorem first_object_decoded_witness:
  \<open>decodeVideoInfo plain_lib
     (''{"title":null,"id":"x","Title":"t","n":[1,{}],"thumbnail":"u","duration":7,"duration":42}''
        @ [CHR 0x0A] @ ''WARNING: falling back'')
     = Inr \<lparr>Id' = ''x'', Title = ''t'', Thumbnail = ''u'', Duration = 42\<rparr>
   \<and> fst (GetVideoInfo plain_lib metadata_sys inst0 ''some song'' [])
     = Inr \<lparr>Id' = ''x'', Title = ''t'', Thumbnail = ''u'', Duration = 42\<rparr>\<close>
proof -
  let ?obj = \<open>''{"title":null,"id":"x","Title":"t","n":[1,{}],"thumbnail":"u","duration":7,"duration":42}''\<close>
  let ?ms = \<open>[(''"title"'', JLit ''null''), (''"id"'', JLit ''"x"''), (''"Title"'', JLit ''"t"''),
              (''"n"'', JArray [JLit ''1'', JObject []]),
              (''"thumbnail"'', JLit ''"u"''), (''"duration"'', JLit ''7''),
              (''"duration"'', JLit ''42'')]\<close>
  have scan: "readValue ?obj reset builder0 ?obj = Inr (JObject ?ms)"
    by code_simp
  have ty: "list_all (well_typed plain_lib) ?ms"
    by code_simp
  have fields: "object_fields plain_lib ?ms
                  = \<lparr>Id' = ''x'', Title = ''t'', Thumbnail = ''u'', Duration = 42\<rparr>"
    by code_simp
  have ne: "?obj \<noteq> []" by simp
  have l: "last ?obj = CHR ''}''" by simp
  have run: "run metadata_sys (bPath inst0) (GetVideoInfo_args ''some song'')
               = (?obj @ [CHR 0x0A] @ ''WARNING: falling back'', None)"
    by (simp add: metadata_sys_def)
  note t = first_object_decoded [OF ne l scan,
      of plain_lib "[CHR 0x0A] @ ''WARNING: falling back''" metadata_sys inst0 "''some song''" "[]"]
  from t ty
  have a: "decodeVideoInfo plain_lib (?obj @ [CHR 0x0A] @ ''WARNING: falling back'')
             = Inr (object_fields plain_lib ?ms)"
    by blast
  from t ty run
  have b: "fst (GetVideoInfo plain_lib metadata_sys inst0 ''some song'' [])
             = Inr (object_fields plain_lib ?ms)"
    by blast
  show ?thesis by (simp only: a b fields)
qed

text \<open>
  The claim as first stated, for every valid JSON object, fails: these two objects are
  valid JSON, and decoding them fails, with bytes after them or without.
\<close>

theorem valid_object_fails_counterexample:
  \<open>decodeVideoInfo plain_lib (''{"id":5}'' @ '' trailing bytes'')
     = Inl (JsonErr (UnmarshalTypeError ''number'' ''id''))
   \<and> decodeVideoInfo plain_lib (''{"duration":-1}'' @ [CHR 0x0A])
     = Inl (JsonErr (UnmarshalTypeError ''number -1'' ''duration''))\<close>
  by code_simp

end
